theory Spec2Isabelle
  imports Complex_Main
begin

section \<open>Strings: the topic normalisation of \<open>generate_data\<close>\<close>

text \<open>
  \<open>generate_data\<close> cleans the query with
  \<^verbatim>\<open>re.sub("[^0-9a-zA-Z]+", " ", s).lower().strip()\<close>
  and every topic name with the same three steps of the pandas string accessor.
  Strings are byte lists. A character outside ASCII is a run of bytes none of which is an
  ASCII letter or digit, so the substitution turns it, with its non-alphanumeric
  neighbours, into one space, as it does with the code point in Python; after the
  substitution only ASCII letters, digits and spaces are left for \<open>lower\<close> and
  \<open>strip\<close>.
\<close>

definition is_alnum :: "char \<Rightarrow> bool" where
  "is_alnum c =
     (let n = (of_char c :: nat)
      in (48 \<le> n \<and> n \<le> 57) \<or> (65 \<le> n \<and> n \<le> 90) \<or> (97 \<le> n \<and> n \<le> 122))"

text \<open>\<^verbatim>\<open>re.sub("[^0-9a-zA-Z]+", " ", s)\<close>: every maximal run of other characters becomes one space.\<close>

fun re_sub :: "string \<Rightarrow> string" where
  "re_sub [] = []"
| "re_sub [c] = (if is_alnum c then [c] else '' '')"
| "re_sub (c # d # cs) =
     (if is_alnum c then c # re_sub (d # cs)
      else if is_alnum d then CHR '' '' # re_sub (d # cs)
      else re_sub (d # cs))"

definition lower_char :: "char \<Rightarrow> char" where
  "lower_char c =
     (let n = (of_char c :: nat) in if 65 \<le> n \<and> n \<le> 90 then char_of (n + 32) else c)"

definition lower :: "string \<Rightarrow> string" where
  "lower s = map lower_char s"

text \<open>The ASCII white space that \<^verbatim>\<open>str.strip()\<close> removes from both ends.\<close>

definition is_space :: "char \<Rightarrow> bool" where
  "is_space c = (let n = (of_char c :: nat) in n = 32 \<or> (9 \<le> n \<and> n \<le> 13) \<or> (28 \<le> n \<and> n \<le> 31))"

definition strip :: "string \<Rightarrow> string" where
  "strip s = rev (dropWhile is_space (rev (dropWhile is_space s)))"

definition clean :: "string \<Rightarrow> string" where
  "clean s = strip (lower (re_sub s))"


section \<open>The dataset and the tables of \<open>generate_data\<close>\<close>

text \<open>
  A row of the dataset frame read from \<^verbatim>\<open>medium_topics.json\<close>: the columns
  \<open>topic\<close>, \<open>stories\<close>, \<open>writers\<close> and \<open>related_topics\<close>. The two counters are only
  carried through here, as exact numbers.
\<close>

record topic_row =
  topic :: string
  stories :: rat
  writers :: rat
  related_topics :: "string list"

text \<open>
  A cell of an object column: a string, or the missing value \<open>nan\<close> that \<open>explode\<close>
  writes for an empty list and that \<open>.str.get\<close> gives past the end of a list.
\<close>

datatype cell = Str string | NaN

text \<open>The edge table has the columns \<open>from\<close> and \<open>to\<close>.\<close>

record edge_row =
  from_col :: cell
  to_col :: cell

text \<open>The node table: the dataset row without \<open>related_topics\<close>, \<open>topic\<close> renamed to \<open>id\<close>.\<close>

record node_row =
  node_id :: string
  node_stories :: rat
  node_writers :: rat

text \<open>
  The places where \<open>generate_data\<close> raises: \<open>Series.item()\<close> on a selection that has
  not exactly one row (ValueError); the construction of the pair series from a
  selection without rows (at the latest \<open>set.union()\<close> called with no argument, a
  TypeError); the assignment of the \<open>.str\<close> columns to the two targets \<open>from\<close>, \<open>to\<close>
  when their number, given here, is not two (ValueError).
\<close>

datatype gen_error = ItemError | EmptySelection | UnpackError nat

text \<open>
  \<^verbatim>\<open>DataFrame.explode(column="related_topics")\<close>: one row for each entry of the list,
  and one row with \<open>nan\<close> for an empty list.
\<close>

definition explode_row :: "topic_row \<Rightarrow> (string \<times> cell) list" where
  "explode_row r =
     (if related_topics r = [] then [(topic r, NaN)]
      else map (\<lambda>x. (topic r, Str x)) (related_topics r))"

definition explode :: "topic_row list \<Rightarrow> (string \<times> cell) list" where
  "explode rows = concat (map explode_row rows)"

text \<open>
  \<^verbatim>\<open>.apply(set, axis=1)\<close> makes of the row \<open>(topic, related)\<close> a Python set, and
  \<^verbatim>\<open>.apply(list)\<close> later lists it. A set of one element is listed as it is; the order
  in which CPython lists a set of two depends on the hashes of its elements, which
  change from process to process; \<open>orient\<close> stands for that order (\<open>True\<close>: the topic
  first). A set is kept as the list that lists it; two sets are equal when these lists
  have the same elements.
\<close>

definition pair_list :: "(string \<Rightarrow> cell \<Rightarrow> bool) \<Rightarrow> string \<times> cell \<Rightarrow> cell list" where
  "pair_list orient p =
     (case p of (t, r) \<Rightarrow>
        if r = Str t then [Str t]
        else if orient t r then [Str t, r]
        else [r, Str t])"

text \<open>\<^verbatim>\<open>Series.drop_duplicates()\<close> keeps the first of the sets that are equal.\<close>

fun drop_duplicates :: "cell list list \<Rightarrow> cell list list" where
  "drop_duplicates [] = []"
| "drop_duplicates (s # ss) = s # filter (\<lambda>u. set u \<noteq> set s) (drop_duplicates ss)"

text \<open>\<^verbatim>\<open>.str.get(i)\<close> on a list: its \<open>i\<close>-th element, \<open>nan\<close> past its end.\<close>

definition str_get :: "nat \<Rightarrow> cell list \<Rightarrow> cell" where
  "str_get i l = (if i < length l then l ! i else NaN)"

definition notna_any :: "cell list \<Rightarrow> bool" where
  "notna_any g = list_ex (\<lambda>c. c \<noteq> NaN) g"

definition max_len :: "cell list list \<Rightarrow> nat" where
  "max_len ls = fold max (map length ls) 0"

lemma max_len_ge: "l \<in> set ls \<Longrightarrow> length l \<le> fold max (map length ls) a"
proof (induction ls arbitrary: a)
  case Nil
  then show ?case by simp
next
  case (Cons x xs)
  have mono: "b \<le> fold max (map length xs) b" for b
    by (induction xs arbitrary: b) (auto intro: order_trans [OF max.cobounded2])
  from Cons show ?case
    by (auto intro: order_trans [OF max.cobounded1 mono])
qed

lemma notna_any_bound:
  assumes "notna_any (map (str_get i) ls)"
  shows "i < max_len ls"
proof -
  from assms obtain l where l: "l \<in> set ls" "str_get i l \<noteq> NaN"
    by (auto simp: notna_any_def list_ex_iff)
  then have "i < length l"
    by (auto simp: str_get_def split: if_splits)
  with max_len_ge [OF l(1), of 0] show ?thesis
    by (simp add: max_len_def)
qed

text \<open>
  Iterating over the \<open>.str\<close> accessor (pandas 1.x):
  \<^verbatim>\<open>i = 0; g = self.get(i); while g.notna().any(): yield g; i += 1; g = self.get(i)\<close>.
\<close>

function str_iter :: "nat \<Rightarrow> cell list list \<Rightarrow> cell list list" where
  "str_iter i ls =
     (let g = map (str_get i) ls
      in if notna_any g then g # str_iter (Suc i) ls else [])"
  by pat_completeness auto
termination
  by (relation "measure (\<lambda>(i, ls). max_len ls - i)") (auto dest: notna_any_bound)

declare str_iter.simps [simp del]

definition to_node :: "topic_row \<Rightarrow> node_row" where
  "to_node r = \<lparr>node_id = topic r, node_stories = stories r, node_writers = writers r\<rparr>"

definition to_edge :: "cell \<times> cell \<Rightarrow> edge_row" where
  "to_edge p = \<lparr>from_col = fst p, to_col = snd p\<rparr>"

text \<open>
  Lines 32 to 39: the rows whose topic is a related topic or the query as it was typed,
  exploded, each made a set, duplicates dropped.
\<close>

definition graph_rows :: "topic_row list \<Rightarrow> string list \<Rightarrow> string \<Rightarrow> topic_row list" where
  "graph_rows df related selected_topic =
     filter (\<lambda>r. topic r \<in> set (related @ [selected_topic])) df"

definition df_graph :: "(string \<Rightarrow> cell \<Rightarrow> bool) \<Rightarrow> topic_row list \<Rightarrow> cell list list" where
  "df_graph orient rows = drop_duplicates (map (pair_list orient) (explode rows))"

text \<open>
  Lines 44 to 50: the union of the sets, and the rows of the dataset whose topic is in it.
\<close>

definition graph_nodes :: "topic_row list \<Rightarrow> cell list list \<Rightarrow> node_row list" where
  "graph_nodes df g = map to_node (filter (\<lambda>r. Str (topic r) \<in> set (concat g)) df)"

text \<open>
  Lines 41 to 51, on a selection with rows: the two columns the \<open>.str\<close> accessor yields
  become \<open>from\<close> and \<open>to\<close>.
\<close>

definition build_graph ::
  "topic_row list \<Rightarrow> cell list list \<Rightarrow> gen_error + (edge_row list \<times> node_row list) option" where
  "build_graph df g =
     (case str_iter 0 g of
        [froms, tos] \<Rightarrow> Inr (Some (map to_edge (zip froms tos), graph_nodes df g))
      | cols \<Rightarrow> Inl (UnpackError (length cols)))"

text \<open>
  \<open>generate_data(df, selected_topic)\<close>. The result \<open>Inr None\<close> is the pair
  \<open>(None, None)\<close>, \<open>Inr (Some (edges, nodes))\<close> the two tables, \<open>Inl e\<close> an exception.
  The query is \<open>None\<close> or a string.
\<close>

definition generate_data ::
  "(string \<Rightarrow> cell \<Rightarrow> bool) \<Rightarrow> topic_row list \<Rightarrow> string option
     \<Rightarrow> gen_error + (edge_row list \<times> node_row list) option" where
  "generate_data orient df selected_topic =
     (case selected_topic of
        None \<Rightarrow> Inr None
      | Some sel \<Rightarrow>
          if sel = [] then Inr None
          else if clean sel \<notin> set (map (\<lambda>r. clean (topic r)) df) then Inr None
          else (case filter (\<lambda>r. clean (topic r) = clean sel) df of
                  [m] \<Rightarrow>
                    (let rows = graph_rows df (related_topics m) sel
                     in if rows = [] then Inl EmptySelection
                        else build_graph df (df_graph orient rows))
                | _ \<Rightarrow> Inl ItemError))"

text \<open>
  The signature is \<^verbatim>\<open>def generate_data(df, selected_topic="Life")\<close>. A call gives
  the second argument or leaves it out: \<open>None\<close> here is the call without it, \<open>Some q\<close>
  the call that passes \<open>q\<close> (itself \<open>None\<close> or a string).
\<close>

definition generate_data_call ::
  "(string \<Rightarrow> cell \<Rightarrow> bool) \<Rightarrow> topic_row list \<Rightarrow> string option option
     \<Rightarrow> gen_error + (edge_row list \<times> node_row list) option" where
  "generate_data_call orient df arg =
     (case arg of
        None \<Rightarrow> generate_data orient df (Some ''Life'')
      | Some q \<Rightarrow> generate_data orient df q)"

text \<open>
  Two fixed orders for the two-element sets, for the examples: the topic of the row
  first, or last.
\<close>

definition topic_first :: "string \<Rightarrow> cell \<Rightarrow> bool" where
  "topic_first t r = True"

definition topic_last :: "string \<Rightarrow> cell \<Rightarrow> bool" where
  "topic_last t r = False"

text \<open>Datasets for the examples; the counters are the \<open>0\<close> of the specification's example.\<close>

definition mk_row :: "string \<Rightarrow> string list \<Rightarrow> topic_row" where
  "mk_row t rs = \<lparr>topic = t, stories = 0, writers = 0, related_topics = rs\<rparr>"

definition mk_node :: "string \<Rightarrow> node_row" where
  "mk_node t = \<lparr>node_id = t, node_stories = 0, node_writers = 0\<rparr>"

definition mk_edge :: "string \<Rightarrow> string \<Rightarrow> edge_row" where
  "mk_edge a b = \<lparr>from_col = Str a, to_col = Str b\<rparr>"

definition life2 :: "topic_row list" where
  "life2 = [mk_row ''Life'' [''Writing''], mk_row ''Writing'' [''Life'']]"


definition chain3 :: "topic_row list" where
  "chain3 = [mk_row ''Life'' [''Writing''], mk_row ''Writing'' [''Life'', ''Poetry''],
             mk_row ''Poetry'' [''Writing'']]"


definition lonely :: "topic_row list" where
  "lonely = [mk_row ''Life'' []]"

definition one_way :: "topic_row list" where
  "one_way = [mk_row ''Life'' [''Writing''], mk_row ''Writing'' [''Poetry'']]"

definition shouting :: "topic_row list" where
  "shouting = [mk_row ''LIFE'' [''Writing''], mk_row ''Writing'' [''Poetry'']]"


text \<open>
  The names the node table is made of, for a matched row \<open>T\<close>: \<open>T\<close>, its related
  topics, and the related topics of every row of the dataset named among these.
\<close>

definition ego_names :: "topic_row list \<Rightarrow> topic_row \<Rightarrow> string set" where
  "ego_names df T =
     (let C = topic T # related_topics T
      in set C \<union> set (concat (map related_topics (filter (\<lambda>r. topic r \<in> set C) df))))"


section \<open>Frames and \<open>parse_data\<close>\<close>

text \<open>
  A value of a frame: a string, an integer, a float (kept as an exact number) or the
  missing value. A frame has its columns, each with its dtype, and its rows as
  \<^verbatim>\<open>to_dict(orient="records")\<close> gives them: one dictionary from column name to value
  for each row. Column names are distinct.
\<close>

datatype val = StrV string | IntV int | FloatV rat | NanV

datatype dtype = Int16 | Int32 | Int64 | Float16 | Float32 | Float64 | Object

type_synonym dict = "(string \<times> val) list"

record frame =
  columns :: "(string \<times> dtype) list"
  records :: "dict list"

definition colnames :: "frame \<Rightarrow> string list" where
  "colnames df = map fst (columns df)"

text \<open>A cell of a row; a frame is rectangular, a cell that was never given is \<open>nan\<close>.\<close>

definition cell_of :: "dict \<Rightarrow> string \<Rightarrow> val" where
  "cell_of r c = (case map_of r c of Some v \<Rightarrow> v | None \<Rightarrow> NanV)"

definition column :: "frame \<Rightarrow> string \<Rightarrow> val list" where
  "column df c = map (\<lambda>r. cell_of r c) (records df)"

text \<open>
  What the Python run time decides and the source does not: the text \<open>str\<close> gives for
  a float, and the order in which \<open>list(set(xs))\<close> lists the distinct elements of
  \<open>xs\<close> (the set of \<open>unique()\<close> of two columns is the set of their values).
\<close>

record py_env =
  float_repr :: "rat \<Rightarrow> string"
  list_of_set :: "string list \<Rightarrow> string list"

fun digits_of :: "nat \<Rightarrow> string" where
  "digits_of n =
     (if n < 10 then [char_of (48 + n)] else digits_of (n div 10) @ [char_of (48 + n mod 10)])"

declare digits_of.simps [simp del]

definition py_str :: "py_env \<Rightarrow> val \<Rightarrow> string" where
  "py_str env v =
     (case v of
        StrV s \<Rightarrow> s
      | IntV i \<Rightarrow> (if i < 0 then CHR ''-'' # digits_of (nat (- i)) else digits_of (nat i))
      | FloatV r \<Rightarrow> float_repr env r
      | NanV \<Rightarrow> ''nan'')"

text \<open>
  \<^verbatim>\<open>df.loc[:, cols] = df.loc[:, cols].astype(str)\<close>: the assignment goes through
  \<open>.loc\<close> of the frame the caller passed, so it is that frame which has the new
  columns afterwards; the function returns it here. The columns named become object
  columns of strings.
\<close>

definition astype_str :: "py_env \<Rightarrow> string list \<Rightarrow> frame \<Rightarrow> frame" where
  "astype_str env cols df =
     \<lparr>columns = map (\<lambda>(c, t). if c \<in> set cols then (c, Object) else (c, t)) (columns df),
      records = map (map (\<lambda>(c, v). if c \<in> set cols then (c, StrV (py_str env v)) else (c, v)))
                    (records df)\<rparr>"

text \<open>The bounds \<^verbatim>\<open>{"min": minn, "max": maxx}\<close> of a numerical column.\<close>

record bounds =
  b_min :: val
  b_max :: val

definition num_of :: "val \<Rightarrow> rat option" where
  "num_of v = (case v of IntV i \<Rightarrow> Some (of_int i) | FloatV r \<Rightarrow> Some r | _ \<Rightarrow> None)"

text \<open>\<open>Series.min()\<close> and \<open>Series.max()\<close> skip missing values; \<open>nan\<close> when nothing is left.\<close>

definition col_min :: "val list \<Rightarrow> val" where
  "col_min vs =
     (case filter (\<lambda>v. num_of v \<noteq> None) vs of
        [] \<Rightarrow> NanV
      | x # xs \<Rightarrow> fold (\<lambda>v m. if the (num_of v) < the (num_of m) then v else m) xs x)"

definition col_max :: "val list \<Rightarrow> val" where
  "col_max vs =
     (case filter (\<lambda>v. num_of v \<noteq> None) vs of
        [] \<Rightarrow> NanV
      | x # xs \<Rightarrow> fold (\<lambda>v m. if the (num_of m) < the (num_of v) then v else m) xs x)"

definition compute_scaling_vars_for_numerical_cols :: "frame \<Rightarrow> (string \<times> bounds) list" where
  "compute_scaling_vars_for_numerical_cols df =
     map (\<lambda>col. (col, \<lparr>b_min = col_min (column df col), b_max = col_max (column df col)\<rparr>))
         (map fst (filter (\<lambda>(c, t). t \<noteq> Object) (columns df)))"

text \<open>
  \<^verbatim>\<open>{**d, **extra}\<close>: a key of \<open>d\<close> keeps its place and takes the new value, a new
  key is added at the end.
\<close>

fun dict_set :: "(string \<times> 'v) list \<Rightarrow> string \<Rightarrow> 'v \<Rightarrow> (string \<times> 'v) list" where
  "dict_set [] k v = [(k, v)]"
| "dict_set ((k', v') # d) k v = (if k' = k then (k, v) # d else (k', v') # dict_set d k v)"

definition dict_merge :: "(string \<times> 'v) list \<Rightarrow> (string \<times> 'v) list \<Rightarrow> (string \<times> 'v) list" where
  "dict_merge d extra = fold (\<lambda>(k, v) acc. dict_set acc k v) extra d"

text \<open>
  A value of an edge of the payload: a value of the row, or the dictionary
  \<^verbatim>\<open>{"color": "#97C2FC"}\<close>.
\<close>

datatype pval = V val | D "(string \<times> string) list"

record graph_data =
  data_nodes :: "dict list"
  data_edges :: "(string \<times> pval) list list"

record scaling =
  sv_node :: "(string \<times> bounds) list option"
  sv_edge :: "(string \<times> bounds) list"

text \<open>
  The two checks of \<open>parse_data\<close> raise an \<open>Exception\<close> with the messages
  "Edge dataframe missing either 'from' or 'to' column." and
  "Node dataframe missing 'id' column.".
\<close>

datatype parse_error = EdgeColumnsMissing | NodeIdMissing

text \<open>
  What a call leaves: the pair it returns, and the two frames of the caller as they are
  after it.
\<close>

record parse_result =
  payload :: graph_data
  scaling_vars :: scaling
  edge_df_after :: frame
  node_df_after :: "frame option"

definition node_entry :: "rat \<Rightarrow> bool \<Rightarrow> dict \<Rightarrow> dict" where
  "node_entry default_size node_image_url_flag node =
     (if \<not> node_image_url_flag
      then dict_merge node [(''label'', cell_of node ''id''), (''shape'', StrV ''dot''),
                            (''size'', FloatV default_size)]
      else dict_merge node [(''label'', cell_of node ''id''), (''shape'', StrV ''circularImage''),
                            (''image'', cell_of node ''node_image_url''), (''size'', IntV 20)])"

definition edge_entry :: "py_env \<Rightarrow> dict \<Rightarrow> (string \<times> pval) list" where
  "edge_entry env row =
     dict_merge (map (\<lambda>(c, v). (c, V v)) row)
       [(''id'', V (StrV (py_str env (cell_of row ''from'') @ ''__'' @ py_str env (cell_of row ''to'')))),
        (''color'', D [(''color'', ''#97C2FC'')])]"

text \<open>
  \<open>parse_data(edge_df, node_df=None)\<close>, with \<open>DEFAULT_NODE_SIZE\<close> of the configuration
  module as a parameter. The edge identifier joins the two cells, which are strings by
  then (\<open>py_str\<close> leaves a string as it is). The bounds of the node frame are computed
  before its \<open>id\<close> column is made strings, those of the edge frame after \<open>from\<close> and
  \<open>to\<close> were.
\<close>

definition parse_data ::
  "rat \<Rightarrow> py_env \<Rightarrow> frame \<Rightarrow> frame option \<Rightarrow> parse_error + parse_result" where
  "parse_data default_size env edge_df node_df =
     (if ''from'' \<notin> set (colnames edge_df) \<or> ''to'' \<notin> set (colnames edge_df)
      then Inl EdgeColumnsMissing
      else if (case node_df of None \<Rightarrow> False | Some n \<Rightarrow> ''id'' \<notin> set (colnames n))
      then Inl NodeIdMissing
      else
        let edge_df1 = astype_str env [''from'', ''to''] edge_df;
            sv = \<lparr>sv_node = map_option compute_scaling_vars_for_numerical_cols node_df,
                  sv_edge = compute_scaling_vars_for_numerical_cols edge_df1\<rparr>;
            node_df1 = map_option (astype_str env [''id'']) node_df;
            nodes =
              (case node_df1 of
                 None \<Rightarrow>
                   map (\<lambda>node_name. [(''id'', StrV node_name), (''label'', StrV node_name),
                                      (''shape'', StrV ''dot''), (''size'', FloatV default_size)])
                       (list_of_set env (map (py_str env)
                          (column edge_df1 ''from'' @ column edge_df1 ''to'')))
               | Some n \<Rightarrow>
                   map (node_entry default_size (''node_image_url'' \<in> set (colnames n))) (records n));
            edges = map (edge_entry env) (records edge_df1)
        in Inr \<lparr>payload = \<lparr>data_nodes = nodes, data_edges = edges\<rparr>, scaling_vars = sv,
                edge_df_after = edge_df1, node_df_after = node_df1\<rparr>)"


section \<open>\<open>callback_size_nodes\<close>\<close>

text \<open>
  The module \<open>config\<close> is not part of the sources at hand; its three constants are
  parameters, kept by value.
\<close>

record config =
  MIN_NODE_SIZE :: rat
  MAX_NODE_SIZE :: rat
  DEFAULT_NODE_SIZE :: rat

text \<open>
  What can go wrong in the loop: \<open>split()[-1]\<close> of a label without a word; a missing
  key; \<open>scaling_vars["node"]\<close> that is \<open>None\<close>, or a string where a number is needed;
  and the division by \<open>max_size - min_size\<close> when this is zero. With Python numbers
  that division raises ZeroDivisionError; with the NumPy scalars that
  \<open>Series.min()\<close> and \<open>Series.max()\<close> return it gives \<open>inf\<close> (or \<open>nan\<close>) under a
  RuntimeWarning, and the size computed from it is not a finite number.
  \<open>DivisionByZero\<close> stands for both.
\<close>

datatype size_error = IndexError | KeyError string | TypeError | DivisionByZero

text \<open>\<open>str.split()\<close>: the words between runs of white space.\<close>

fun split_acc :: "string \<Rightarrow> string \<Rightarrow> string list" where
  "split_acc w [] = (if w = [] then [] else [w])"
| "split_acc w (c # cs) =
     (if is_space c then (if w = [] then split_acc [] cs else w # split_acc [] cs)
      else split_acc (w @ [c]) cs)"

definition split_ws :: "string \<Rightarrow> string list" where
  "split_ws s = split_acc [] s"

text \<open>A number as the arithmetic sees it: \<open>None\<close> is \<open>nan\<close>, which every operation hands on.\<close>

definition as_number :: "val \<Rightarrow> size_error + rat option" where
  "as_number v =
     (case v of
        StrV s \<Rightarrow> Inl TypeError
      | IntV i \<Rightarrow> Inr (Some (of_int i))
      | FloatV r \<Rightarrow> Inr (Some r)
      | NanV \<Rightarrow> Inr None)"

definition of_number :: "rat option \<Rightarrow> val" where
  "of_number x = (case x of None \<Rightarrow> NanV | Some r \<Rightarrow> FloatV r)"

text \<open>
  The body of the first loop for one node:
  \<^verbatim>\<open>max_size = scaling_vars["node"][method]["max"]\<close>,
  \<^verbatim>\<open>min_size = scaling_vars["node"][method]["min"]\<close>,
  \<^verbatim>\<open>scaling = (MAX_NODE_SIZE - MIN_NODE_SIZE) / (max_size - min_size)\<close>,
  \<^verbatim>\<open>node["size"] = (node[method] - min_size) * scaling + MIN_NODE_SIZE\<close>.
\<close>

definition size_node :: "config \<Rightarrow> scaling \<Rightarrow> string \<Rightarrow> dict \<Rightarrow> size_error + dict" where
  "size_node cfg sv method node =
     (case sv_node sv of
        None \<Rightarrow> Inl TypeError
      | Some per_col \<Rightarrow>
          (case map_of per_col method of
             None \<Rightarrow> Inl (KeyError method)
           | Some b \<Rightarrow>
               (case as_number (b_max b) of
                  Inl e \<Rightarrow> Inl e
                | Inr max_size \<Rightarrow>
                    (case as_number (b_min b) of
                       Inl e \<Rightarrow> Inl e
                     | Inr min_size \<Rightarrow>
                         (case (max_size, min_size) of
                            (Some mx, Some mn) \<Rightarrow>
                              if mx - mn = 0 then Inl DivisionByZero
                              else
                                (let scaling = (MAX_NODE_SIZE cfg - MIN_NODE_SIZE cfg) / (mx - mn)
                                 in case map_of node method of
                                      None \<Rightarrow> Inl (KeyError method)
                                    | Some v \<Rightarrow>
                                        (case as_number v of
                                           Inl e \<Rightarrow> Inl e
                                         | Inr x \<Rightarrow>
                                             Inr (dict_set node ''size''
                                                    (of_number
                                                       (map_option
                                                          (\<lambda>x. (x - mn) * scaling + MIN_NODE_SIZE cfg)
                                                          x)))))
                          | _ \<Rightarrow>
                              (case map_of node method of
                                 None \<Rightarrow> Inl (KeyError method)
                               | Some v \<Rightarrow>
                                   (case as_number v of
                                      Inl e \<Rightarrow> Inl e
                                    | Inr x \<Rightarrow> Inr (dict_set node ''size'' NanV))))))))"

fun size_nodes :: "config \<Rightarrow> scaling \<Rightarrow> string \<Rightarrow> dict list \<Rightarrow> size_error + dict list" where
  "size_nodes cfg sv method [] = Inr []"
| "size_nodes cfg sv method (node # rest) =
     (case size_node cfg sv method node of
        Inl e \<Rightarrow> Inl e
      | Inr node' \<Rightarrow>
          (case size_nodes cfg sv method rest of
             Inl e \<Rightarrow> Inl e
           | Inr rest' \<Rightarrow> Inr (node' # rest')))"

text \<open>
  \<open>callback_size_nodes(self, data, scaling_vars, size_topics_by)\<close>; the sizing method
  is \<open>None\<close> or a label such as "Number of stories".
\<close>

definition callback_size_nodes ::
  "config \<Rightarrow> graph_data \<Rightarrow> scaling \<Rightarrow> string option \<Rightarrow> size_error + graph_data" where
  "callback_size_nodes cfg data sv size_topics_by =
     (case size_topics_by of
        Some label \<Rightarrow>
          (case split_ws label of
             [] \<Rightarrow> Inl IndexError
           | w # ws \<Rightarrow>
               (case size_nodes cfg sv (last (w # ws)) (data_nodes data) of
                  Inl e \<Rightarrow> Inl e
                | Inr nodes \<Rightarrow> Inr (data\<lparr>data_nodes := nodes\<rparr>)))
      | None \<Rightarrow>
          Inr (data\<lparr>data_nodes :=
                 map (\<lambda>node. dict_set node ''size'' (FloatV (DEFAULT_NODE_SIZE cfg))) (data_nodes data)\<rparr>))"


section \<open>Reading the payload, and inputs for the examples\<close>

text \<open>The number a node carries under an attribute, when it carries one.\<close>

definition attr_number :: "dict \<Rightarrow> string \<Rightarrow> rat option" where
  "attr_number node m = (case map_of node m of None \<Rightarrow> None | Some v \<Rightarrow> num_of v)"

text \<open>
  The remapping as the specification writes it:
  \<open>(value - min) * (MAX_SIZE - MIN_SIZE) / (max - min) + MIN_SIZE\<close>.
\<close>

definition rescaled :: "config \<Rightarrow> rat \<Rightarrow> rat \<Rightarrow> rat \<Rightarrow> rat" where
  "rescaled cfg mn mx v =
     (v - mn) * (MAX_NODE_SIZE cfg - MIN_NODE_SIZE cfg) / (mx - mn) + MIN_NODE_SIZE cfg"

definition demo_env :: py_env where
  "demo_env = \<lparr>float_repr = (\<lambda>r. ''float''), list_of_set = remdups\<rparr>"

definition demo_cfg :: config where
  "demo_cfg = \<lparr>MIN_NODE_SIZE = 10, MAX_NODE_SIZE = 50, DEFAULT_NODE_SIZE = 7\<rparr>"

definition mk_payload_node :: "string \<Rightarrow> rat \<Rightarrow> dict" where
  "mk_payload_node name s =
     [(''id'', StrV name), (''stories'', FloatV s), (''label'', StrV name),
      (''shape'', StrV ''dot''), (''size'', FloatV 7)]"

definition demo_data :: graph_data where
  "demo_data = \<lparr>data_nodes = [mk_payload_node ''Life'' 5, mk_payload_node ''Writing'' 0,
                               mk_payload_node ''Poetry'' 10],
                 data_edges = []\<rparr>"

definition demo_scaling :: scaling where
  "demo_scaling = \<lparr>sv_node = Some [(''stories'', \<lparr>b_min = FloatV 0, b_max = FloatV 10\<rparr>)],
                    sv_edge = []\<rparr>"

text \<open>One node: the bounds of its attribute are equal.\<close>

definition flat_data :: graph_data where
  "flat_data = \<lparr>data_nodes = [mk_payload_node ''Life'' 3], data_edges = []\<rparr>"

definition flat_scaling :: scaling where
  "flat_scaling = \<lparr>sv_node = Some [(''stories'', \<lparr>b_min = FloatV 3, b_max = FloatV 3\<rparr>)],
                    sv_edge = []\<rparr>"

definition flat_node_df :: frame where
  "flat_node_df = \<lparr>columns = [(''id'', Object), (''stories'', Float64)],
                    records = [[(''id'', StrV ''Life''), (''stories'', FloatV 3)]]\<rparr>"

definition empty_edge_df :: frame where
  "empty_edge_df = \<lparr>columns = [(''from'', Object), (''to'', Object)], records = []\<rparr>"

text \<open>An edge frame with integer endpoints and a weight, and one without the column \<open>to\<close>.\<close>

definition int_edge_df :: frame where
  "int_edge_df =
     \<lparr>columns = [(''from'', Int64), (''to'', Int64), (''weight'', Int64)],
      records = [[(''from'', IntV 1), (''to'', IntV 20), (''weight'', IntV 3)]]\<rparr>"

definition int_node_df :: frame where
  "int_node_df =
     \<lparr>columns = [(''id'', Int64), (''stories'', Float64)],
      records = [[(''id'', IntV 1), (''stories'', FloatV 2)], [(''id'', IntV 20), (''stories'', FloatV 4)]]\<rparr>"

definition no_to_edge_df :: frame where
  "no_to_edge_df = \<lparr>columns = [(''from'', Int64)], records = [[(''from'', IntV 1)]]\<rparr>"



section \<open>Properties of \<open>generate_data\<close>\<close>

lemma pair_list_cases:
  "pair_list orient (t, c) = [Str t] \<and> c = Str t
   \<or> c \<noteq> Str t \<and> (pair_list orient (t, c) = [Str t, c] \<or> pair_list orient (t, c) = [c, Str t])"
  by (simp add: pair_list_def)

lemma set_pair_list: "set (pair_list orient (t, c)) = {Str t, c}"
  by (auto simp: pair_list_def)

lemma length_pair_list: "length (pair_list orient p) \<le> 2"
  by (cases p) (simp add: pair_list_def)

lemma set_drop_duplicates_subset: "set (drop_duplicates ss) \<subseteq> set ss"
  by (induction ss) auto

lemma image_set_drop_duplicates: "set ` set (drop_duplicates ss) = set ` set ss"
proof (induction ss)
  case Nil
  then show ?case by simp
next
  case (Cons s ss)
  have "set ` {u \<in> set (drop_duplicates ss). set u \<noteq> set s}
          = set ` set (drop_duplicates ss) - {set s}"
    by auto
  with Cons show ?case
    by simp
qed


lemma set_concat_drop_duplicates: "set (concat (drop_duplicates ss)) = set (concat ss)"
proof -
  have "set (concat xs) = \<Union> (set ` set xs)" for xs :: "cell list list"
    by simp
  then show ?thesis
    by (simp only: image_set_drop_duplicates)
qed

lemma str_iter_short:
  assumes "\<forall>l \<in> set g. length l \<le> n"
  shows "str_iter n g = []"
proof -
  have "\<not> notna_any (map (str_get n) g)"
    using assms by (auto simp: notna_any_def list_ex_iff str_get_def)
  then show ?thesis
    by (simp add: str_iter.simps)
qed

lemma build_graph_SomeD:
  assumes "build_graph df g = Inr (Some (edges, nodes))"
    and "\<forall>l \<in> set g. length l \<le> 2"
  shows "edges = map (\<lambda>l. \<lparr>from_col = str_get 0 l, to_col = str_get 1 l\<rparr>) g"
    and "nodes = graph_nodes df g"
proof -
  have two: "str_iter 2 g = []"
    using assms(2) by (rule str_iter_short)
  have it: "str_iter 0 g = [map (str_get 0) g, map (str_get 1) g]"
    using assms(1) two
    by (auto simp: build_graph_def str_iter.simps [of 0] str_iter.simps [of "Suc 0"] Let_def numeral_2_eq_2
        split: if_splits)
  from assms(1) show "nodes = graph_nodes df g"
    by (simp add: build_graph_def it)
  from assms(1) have "edges = map to_edge (zip (map (str_get 0) g) (map (str_get 1) g))"
    by (simp add: build_graph_def it)
  then show "edges = map (\<lambda>l. \<lparr>from_col = str_get 0 l, to_col = str_get 1 l\<rparr>) g"
    by (simp add: zip_map_map to_edge_def zip_same_conv_map)
qed

lemma df_graph_lengths: "\<forall>l \<in> set (df_graph orient rows). length l \<le> 2"
  using set_drop_duplicates_subset [of "map (pair_list orient) (explode rows)"]
  by (auto simp: df_graph_def length_pair_list)

lemma generate_data_SomeD:
  assumes "generate_data orient df q = Inr (Some (edges, nodes))"
  obtains sel m where "q = Some sel" "sel \<noteq> []"
    "filter (\<lambda>r. clean (topic r) = clean sel) df = [m]"
    "graph_rows df (related_topics m) sel \<noteq> []"
    "edges = map (\<lambda>l. \<lparr>from_col = str_get 0 l, to_col = str_get 1 l\<rparr>)
               (df_graph orient (graph_rows df (related_topics m) sel))"
    "nodes = graph_nodes df (df_graph orient (graph_rows df (related_topics m) sel))"
proof -
  from assms obtain sel where q: "q = Some sel" "sel \<noteq> []"
    by (cases q) (auto simp: generate_data_def split: if_splits)
  from assms q obtain m where m: "filter (\<lambda>r. clean (topic r) = clean sel) df = [m]"
    by (auto simp: generate_data_def split: if_splits list.splits)
  let ?rows = "graph_rows df (related_topics m) sel"
  from assms q m have ne: "?rows \<noteq> []" and b: "build_graph df (df_graph orient ?rows) = Inr (Some (edges, nodes))"
    by (auto simp: generate_data_def Let_def split: if_splits)
  from build_graph_SomeD [OF b df_graph_lengths] q m ne that show thesis
    by blast
qed

lemma generate_data_None_iff:
  "generate_data orient df q = Inr None \<longleftrightarrow>
     (q = None \<or> q = Some [] \<or> (\<exists>sel. q = Some sel \<and> clean sel \<notin> set (map (\<lambda>r. clean (topic r)) df)))"
  by (cases q) (auto simp: generate_data_def build_graph_def Let_def split: if_splits list.splits)



lemma fst_explode: "fst ` set (explode rows) = topic ` set rows"
proof -
  have "fst ` set (explode_row r) = {topic r}" for r
    by (cases "related_topics r") (auto simp: explode_row_def image_iff)
  then show ?thesis
    by (auto simp: explode_def image_UN)
qed

lemma snd_explode:
  "Str x \<in> snd ` set (explode rows) \<longleftrightarrow> x \<in> set (concat (map related_topics rows))"
proof -
  have "Str x \<in> snd ` set (explode_row r) \<longleftrightarrow> x \<in> set (related_topics r)" for r
    by (auto simp: explode_row_def image_iff)
  then show ?thesis
    by (simp add: explode_def image_UN)
qed

lemma Str_in_df_graph:
  "Str x \<in> set (concat (df_graph orient rows)) \<longleftrightarrow>
     x \<in> topic ` set rows \<or> x \<in> set (concat (map related_topics rows))"
proof -
  have "set (concat (df_graph orient rows)) = (\<Union>p \<in> set (explode rows). {Str (fst p), snd p})"
    unfolding df_graph_def set_concat_drop_duplicates
    by (auto simp: set_pair_list)
  then have "Str x \<in> set (concat (df_graph orient rows)) \<longleftrightarrow>
      x \<in> fst ` set (explode rows) \<or> Str x \<in> snd ` set (explode rows)"
    by (auto simp: image_iff)
  then show ?thesis
    by (simp only: fst_explode snd_explode)
qed


lemma clean_Life: "clean ''Life'' = ''life''"
  by code_simp



lemma clean_Poetry: "clean ''Poetry'' = ''poetry''"
  by code_simp



lemma generate_data_chain3:
  "generate_data topic_first chain3 (Some ''Life'') =
     Inr (Some ([mk_edge ''Life'' ''Writing'', mk_edge ''Writing'' ''Poetry''],
                [mk_node ''Life'', mk_node ''Writing'', mk_node ''Poetry'']))"
  by code_simp


lemma generate_data_life2:
  "generate_data topic_first life2 (Some ''Life'') =
     Inr (Some ([mk_edge ''Life'' ''Writing''], [mk_node ''Life'', mk_node ''Writing'']))"
  by code_simp


text \<open>
  The query is compared with the topics after cleaning, but the rows are selected with
  the query as it was typed: for the query "life" the row of Life is not selected, and
  Life is a node only when a selected row names it. Here it is not a node at all.
\<close>

lemma generate_data_one_way_lowercase:
  "generate_data topic_first one_way (Some ''life'') =
     Inr (Some ([mk_edge ''Writing'' ''Poetry''], [mk_node ''Writing'']))"
  by code_simp


subsection \<open>C1: the endpoints of the edges and the node table\<close>





subsection \<open>C2: the node table of a matched query\<close>

text \<open>
  C2, as stated: for a query that matches a topic \<open>T\<close>, the nodes are exactly \<open>T\<close> and
  the related topics of \<open>T\<close> that are rows of the dataset. This fails: with Life related
  to Writing, and Writing related to Life and to Poetry, the query "Life" has the node
  Poetry as well, a related topic of Writing and not of Life.
\<close>

theorem ego_nodes_exact_counterexample:
  "generate_data topic_first chain3 (Some ''Life'') =
     Inr (Some ([mk_edge ''Life'' ''Writing'', mk_edge ''Writing'' ''Poetry''],
                [mk_node ''Life'', mk_node ''Writing'', mk_node ''Poetry'']))
   \<and> node_id (mk_node ''Poetry'') \<notin> set [''Life'', ''Writing'']"
  by (simp add: generate_data_chain3 mk_node_def)

text \<open>
  C2, amended: for a query that is the name of a row \<open>T\<close> of the dataset, character for
  character, whenever \<open>generate_data\<close> returns two tables, the node table is made of
  exactly the rows of the dataset, in its order, that are named by \<open>T\<close>, by a related
  topic of \<open>T\<close>, or by a related topic of a row so named; so it has \<open>T\<close> and the related
  topics of \<open>T\<close> that are rows of the dataset, and the neighbours of these besides.
\<close>

theorem ego_nodes_two_hop:
  assumes "generate_data orient df (Some (topic T)) = Inr (Some (edges, nodes))"
    and "T \<in> set df"
  shows "nodes = map to_node (filter (\<lambda>r. topic r \<in> ego_names df T) df)
       \<and> set (topic T # related_topics T) \<inter> set (map topic df) \<subseteq> set (map node_id nodes)"
proof -
  from assms(1) obtain sel m where sel: "Some (topic T) = Some sel" "sel \<noteq> []"
    and m: "filter (\<lambda>r. clean (topic r) = clean sel) df = [m]"
    and ne: "graph_rows df (related_topics m) sel \<noteq> []"
    and edges: "edges = map (\<lambda>l. \<lparr>from_col = str_get 0 l, to_col = str_get 1 l\<rparr>)
                      (df_graph orient (graph_rows df (related_topics m) sel))"
    and nodes: "nodes = graph_nodes df (df_graph orient (graph_rows df (related_topics m) sel))"
    by (rule generate_data_SomeD)
  from sel have [simp]: "sel = topic T" by simp
  from assms(2) have "T \<in> set (filter (\<lambda>r. clean (topic r) = clean sel) df)"
    by simp
  with m have [simp]: "m = T" by simp
  have "Str (topic r) \<in> set (concat (df_graph orient (graph_rows df (related_topics T) (topic T))))
          \<longleftrightarrow> topic r \<in> ego_names df T" if "r \<in> set df" for r
    using that
    by (subst Str_in_df_graph) (auto simp: ego_names_def graph_rows_def Let_def)
  then have "filter (\<lambda>r. Str (topic r) \<in> set (concat (df_graph orient (graph_rows df (related_topics T) (topic T))))) df
               = filter (\<lambda>r. topic r \<in> ego_names df T) df"
    by (intro filter_cong refl)
  then have eq: "nodes = map to_node (filter (\<lambda>r. topic r \<in> ego_names df T) df)"
    by (simp only: nodes graph_nodes_def \<open>sel = topic T\<close> \<open>m = T\<close>)
  have "set (topic T # related_topics T) \<subseteq> ego_names df T"
    by (auto simp: ego_names_def Let_def)
  then have "set (topic T # related_topics T) \<inter> set (map topic df) \<subseteq> set (map node_id nodes)"
    unfolding eq by (auto simp: to_node_def image_iff)
  with eq show ?thesis
    by simp
qed

theorem ego_nodes_two_hop_witness:
  "generate_data topic_first chain3 (Some (topic (mk_row ''Life'' [''Writing''])))
     = Inr (Some ([mk_edge ''Life'' ''Writing'', mk_edge ''Writing'' ''Poetry''],
                  [mk_node ''Life'', mk_node ''Writing'', mk_node ''Poetry'']))
   \<and> mk_row ''Life'' [''Writing''] \<in> set chain3
   \<and> [mk_node ''Life'', mk_node ''Writing'', mk_node ''Poetry'']
       = map to_node (filter (\<lambda>r. topic r \<in> ego_names chain3 (mk_row ''Life'' [''Writing''])) chain3)"
proof -
  have q: "topic (mk_row ''Life'' [''Writing'']) = ''Life''"
    by (simp add: mk_row_def)
  have g: "generate_data topic_first chain3 (Some (topic (mk_row ''Life'' [''Writing''])))
     = Inr (Some ([mk_edge ''Life'' ''Writing'', mk_edge ''Writing'' ''Poetry''],
                  [mk_node ''Life'', mk_node ''Writing'', mk_node ''Poetry'']))"
    by (simp only: q generate_data_chain3)
  have mem: "mk_row ''Life'' [''Writing''] \<in> set chain3"
    by (simp add: chain3_def)
  have n: "[mk_node ''Life'', mk_node ''Writing'', mk_node ''Poetry'']
       = map to_node (filter (\<lambda>r. topic r \<in> ego_names chain3 (mk_row ''Life'' [''Writing''])) chain3)"
    by (rule conjunct1 [OF ego_nodes_two_hop [OF g mem]])
  show ?thesis
    by (rule conjI [OF g conjI [OF mem n]])
qed


subsection \<open>C3: when the result is the pair of \<open>None\<close>\<close>

text \<open>
  C3: \<open>generate_data\<close> returns \<open>(None, None)\<close> exactly when the query is absent, empty
  or matches no topic, and in every other case both outputs are tables. The first
  half holds (\<open>generate_data_None_iff\<close>). The second does not: for the dataset of
  the single topic Life, which has no related topic, and the query "Life", the call
  returns nothing; it raises where the columns of the \<open>.str\<close> accessor are assigned
  to \<open>from\<close> and \<open>to\<close>, as there are fewer than two of them, whatever the order in which
  the set of the row is listed.
\<close>

theorem generate_data_lonely_raises:
  "generate_data orient lonely (Some ''Life'') =
     Inl (UnpackError (if orient ''Life'' NaN then 1 else 0))"
  by (cases "orient ''Life'' NaN")
     (simp_all add: generate_data_def lonely_def mk_row_def clean_Life graph_rows_def df_graph_def
        explode_def explode_row_def pair_list_def build_graph_def str_iter.simps str_get_def
        notna_any_def)


subsection \<open>C6: one edge for a pair in both directions\<close>




subsection \<open>C9: the call without a query\<close>

text \<open>
  The parameter defaults to the string "Life": a call that leaves the query out is the
  search for Life and never the "no selection" case when a topic of the dataset cleans
  to "life", while a call that passes \<open>None\<close> or the empty string returns
  \<open>(None, None)\<close>.
\<close>

lemma generate_data_call_default:
  "generate_data_call orient df None = generate_data orient df (Some ''Life'')
   \<and> generate_data_call orient df (Some None) = Inr None
   \<and> generate_data_call orient df (Some (Some '''')) = Inr None
   \<and> (''life'' \<in> set (map (\<lambda>r. clean (topic r)) df) \<longrightarrow>
        generate_data_call orient df None \<noteq> Inr None)"
proof -
  have "generate_data orient df (Some ''Life'') \<noteq> Inr None"
    if "''life'' \<in> set (map (\<lambda>r. clean (topic r)) df)"
    using that by (simp add: generate_data_None_iff clean_Life)
  then show ?thesis
    by (simp add: generate_data_call_def generate_data_def)
qed

text \<open>On the dataset of Life and Writing the call without a query is the graph of Life.\<close>

lemma generate_data_call_life2:
  "generate_data_call topic_first life2 None =
     Inr (Some ([mk_edge ''Life'' ''Writing''], [mk_node ''Life'', mk_node ''Writing'']))"
  by (simp add: generate_data_call_def generate_data_life2)

text \<open>
  When the topic is written LIFE, the call without a query matches it after cleaning,
  but selects the rows with the string "Life": the row of LIFE is not selected, and the
  graph returned has neither the node LIFE nor an edge at it.
\<close>

lemma generate_data_call_shouting:
  "generate_data_call topic_first shouting None =
     Inr (Some ([mk_edge ''Writing'' ''Poetry''], [mk_node ''Writing'']))"
  by code_simp

text \<open>
  C9: a call that leaves the query out builds the ego graph of the topic Life when
  Life is in the dataset, and a call that passes \<open>None\<close> or the empty string returns
  \<open>(None, None)\<close>. The second half holds, and so does the default
  (\<open>generate_data_call_default\<close>). The first does not: on the dataset of the single
  topic Life, which has no related topic, Life is in the dataset and the call without a
  query builds nothing; it raises at the assignment of the \<open>.str\<close> columns to \<open>from\<close>
  and \<open>to\<close>, for either order in which the set of the row is listed, while the calls
  with \<open>None\<close> and with the empty string on the same dataset return \<open>(None, None)\<close>.
\<close>

theorem generate_data_call_lonely_raises:
  "''Life'' \<in> set (map topic lonely)
   \<and> generate_data_call orient lonely None =
       Inl (UnpackError (if orient ''Life'' NaN then 1 else 0))
   \<and> generate_data_call orient lonely (Some None) = Inr None
   \<and> generate_data_call orient lonely (Some (Some '''')) = Inr None"
  by (cases "orient ''Life'' NaN")
     (simp_all add: generate_data_call_def generate_data_def lonely_def mk_row_def clean_Life
        graph_rows_def df_graph_def explode_def explode_row_def pair_list_def build_graph_def
        str_iter.simps str_get_def notna_any_def)



section \<open>Properties of \<open>parse_data\<close> and \<open>callback_size_nodes\<close>\<close>

lemma split_ws_stories: "split_ws ''Number of stories'' = [''Number'', ''of'', ''stories'']"
  by code_simp

lemma as_number_num_of: "num_of v = Some r \<Longrightarrow> as_number v = Inr (Some r)"
  by (cases v) (simp_all add: num_of_def as_number_def)

lemma map_of_dict_set: "map_of (dict_set d k v) k = Some v"
  by (induction d) auto

lemma size_node_rescaled:
  assumes "sv_node sv = Some per_col"
    and "map_of per_col m = Some b"
    and "num_of (b_min b) = Some mn"
    and "num_of (b_max b) = Some mx"
    and "mn < mx"
    and "attr_number node m = Some x"
  shows "size_node cfg sv m node = Inr (dict_set node ''size'' (FloatV (rescaled cfg mn mx x)))"
proof -
  from assms(6) obtain v where v: "map_of node m = Some v" "num_of v = Some x"
    by (auto simp: attr_number_def split: option.splits)
  from assms(5) have "mx - mn \<noteq> 0"
    by simp
  with assms(1,2) as_number_num_of [OF assms(3)] as_number_num_of [OF assms(4)]
    as_number_num_of [OF v(2)] v(1)
  show ?thesis
    by (simp add: size_node_def of_number_def rescaled_def)
qed

lemma size_nodes_rescaled:
  assumes "sv_node sv = Some per_col"
    and "map_of per_col m = Some b"
    and "num_of (b_min b) = Some mn"
    and "num_of (b_max b) = Some mx"
    and "mn < mx"
  shows "list_all (\<lambda>n. attr_number n m \<noteq> None) nodes \<Longrightarrow>
     size_nodes cfg sv m nodes =
       Inr (map (\<lambda>n. dict_set n ''size'' (FloatV (rescaled cfg mn mx (the (attr_number n m))))) nodes)"
proof (induction nodes)
  case Nil
  then show ?case by simp
next
  case (Cons node rest)
  then obtain x where x: "attr_number node m = Some x"
    by auto
  from Cons size_node_rescaled [OF assms x, of cfg] x show ?case
    by simp
qed


subsection \<open>C4: bounds with \<open>min = max\<close>\<close>

text \<open>
  C4: when the bounds of the attribute are equal, the division by zero is guarded and
  every node gets the size \<open>MIN_NODE_SIZE\<close>. The code has no such guard: for one node
  whose attribute is 3, with the bounds 3 and 3 that \<open>parse_data\<close> computes for it, the
  division by \<open>max_size - min_size\<close> is a division by zero, and no size is set to
  \<open>MIN_NODE_SIZE\<close>, for any configuration.
\<close>

theorem size_nodes_zero_width_bounds:
  "callback_size_nodes cfg flat_data flat_scaling (Some ''Number of stories'') = Inl DivisionByZero"
  by (simp add: callback_size_nodes_def split_ws_stories flat_data_def flat_scaling_def
      size_node_def as_number_def)

text \<open>The bounds of this input are those \<open>parse_data\<close> computes for a node table of one row.\<close>

lemma parse_data_flat_bounds:
  "map_sum id scaling_vars (parse_data 7 demo_env empty_edge_df (Some flat_node_df)) = Inr flat_scaling"
  by code_simp

lemma parse_data_flat_nodes:
  "map_sum id (data_nodes \<circ> payload) (parse_data 7 demo_env empty_edge_df (Some flat_node_df))
     = Inr (data_nodes flat_data)"
  by code_simp


subsection \<open>C5: the sizes by attribute, and the default size\<close>

text \<open>
  C5: with a sizing label whose last word names an attribute with bounds
  \<open>min < max\<close>, every node gets the size
  \<open>(value - min) * (MAX_NODE_SIZE - MIN_NODE_SIZE) / (max - min) + MIN_NODE_SIZE\<close>;
  with the bounds 0 and 10 and the sizes 10 and 50 the value 5 gives 30; without a
  label every node gets the size \<open>DEFAULT_NODE_SIZE\<close>. Numbers are exact here: the
  code multiplies by the quotient \<open>(MAX_NODE_SIZE - MIN_NODE_SIZE) / (max - min)\<close>,
  which is the same number.
\<close>

theorem callback_size_nodes_rescale:
  "(sv_node sv = Some per_col \<and> split_ws label \<noteq> []
      \<and> map_of per_col (last (split_ws label)) = Some b
      \<and> num_of (b_min b) = Some mn \<and> num_of (b_max b) = Some mx \<and> mn < mx
      \<and> list_all (\<lambda>n. attr_number n (last (split_ws label)) \<noteq> None) (data_nodes data)
    \<longrightarrow> callback_size_nodes cfg data sv (Some label) =
          Inr (data\<lparr>data_nodes :=
                 map (\<lambda>n. dict_set n ''size''
                            (FloatV (rescaled cfg mn mx (the (attr_number n (last (split_ws label)))))))
                     (data_nodes data)\<rparr>))
   \<and> rescaled \<lparr>MIN_NODE_SIZE = 10, MAX_NODE_SIZE = 50, DEFAULT_NODE_SIZE = d\<rparr> 0 10 5 = 30
   \<and> callback_size_nodes cfg data sv None =
       Inr (data\<lparr>data_nodes :=
              map (\<lambda>n. dict_set n ''size'' (FloatV (DEFAULT_NODE_SIZE cfg))) (data_nodes data)\<rparr>)
   \<and> map_of (dict_set node ''size'' v) ''size'' = Some v"
proof (intro conjI impI)
  assume h: "sv_node sv = Some per_col \<and> split_ws label \<noteq> []
      \<and> map_of per_col (last (split_ws label)) = Some b
      \<and> num_of (b_min b) = Some mn \<and> num_of (b_max b) = Some mx \<and> mn < mx
      \<and> list_all (\<lambda>n. attr_number n (last (split_ws label)) \<noteq> None) (data_nodes data)"
  then obtain w ws where ws: "split_ws label = w # ws"
    by (cases "split_ws label") auto
  from h have "size_nodes cfg sv (last (split_ws label)) (data_nodes data) =
       Inr (map (\<lambda>n. dict_set n ''size''
                  (FloatV (rescaled cfg mn mx (the (attr_number n (last (split_ws label)))))))
                (data_nodes data))"
    by (intro size_nodes_rescaled [where per_col = per_col and b = b]) simp_all
  then show "callback_size_nodes cfg data sv (Some label) =
          Inr (data\<lparr>data_nodes :=
                 map (\<lambda>n. dict_set n ''size''
                            (FloatV (rescaled cfg mn mx (the (attr_number n (last (split_ws label)))))))
                     (data_nodes data)\<rparr>)"
    by (simp add: callback_size_nodes_def ws)
next
  show "rescaled \<lparr>MIN_NODE_SIZE = 10, MAX_NODE_SIZE = 50, DEFAULT_NODE_SIZE = d\<rparr> 0 10 5 = 30"
    by (simp add: rescaled_def)
next
  show "callback_size_nodes cfg data sv None =
       Inr (data\<lparr>data_nodes :=
              map (\<lambda>n. dict_set n ''size'' (FloatV (DEFAULT_NODE_SIZE cfg))) (data_nodes data)\<rparr>)"
    by (simp add: callback_size_nodes_def)
next
  show "map_of (dict_set node ''size'' v) ''size'' = Some v"
    by (rule map_of_dict_set)
qed

theorem callback_size_nodes_rescale_witness:
  "sv_node demo_scaling = Some [(''stories'', \<lparr>b_min = FloatV 0, b_max = FloatV 10\<rparr>)]
   \<and> split_ws ''Number of stories'' \<noteq> []
   \<and> map_of [(''stories'', \<lparr>b_min = FloatV 0, b_max = FloatV 10\<rparr>)] (last (split_ws ''Number of stories''))
       = Some \<lparr>b_min = FloatV 0, b_max = FloatV 10\<rparr>
   \<and> num_of (b_min \<lparr>b_min = FloatV 0, b_max = FloatV 10\<rparr>) = Some 0
   \<and> num_of (b_max \<lparr>b_min = FloatV 0, b_max = FloatV 10\<rparr>) = Some 10
   \<and> (0 :: rat) < 10
   \<and> list_all (\<lambda>n. attr_number n (last (split_ws ''Number of stories'')) \<noteq> None) (data_nodes demo_data)
   \<and> callback_size_nodes demo_cfg demo_data demo_scaling (Some ''Number of stories'') =
       Inr (demo_data\<lparr>data_nodes :=
              [dict_set (mk_payload_node ''Life'' 5) ''size'' (FloatV 30),
               dict_set (mk_payload_node ''Writing'' 0) ''size'' (FloatV 10),
               dict_set (mk_payload_node ''Poetry'' 10) ''size'' (FloatV 50)]\<rparr>)"
proof -
  let ?b = "\<lparr>b_min = FloatV 0, b_max = FloatV 10\<rparr>"
  have h1: "sv_node demo_scaling = Some [(''stories'', ?b)]"
    by (simp add: demo_scaling_def)
  have h2: "split_ws ''Number of stories'' \<noteq> []"
    by (simp add: split_ws_stories)
  have h3: "map_of [(''stories'', ?b)] (last (split_ws ''Number of stories'')) = Some ?b"
    by (simp add: split_ws_stories)
  have h4: "num_of (b_min ?b) = Some 0" and h5: "num_of (b_max ?b) = Some 10"
    by (simp_all add: num_of_def)
  have h6: "(0 :: rat) < 10"
    by simp
  have h7: "list_all (\<lambda>n. attr_number n (last (split_ws ''Number of stories'')) \<noteq> None) (data_nodes demo_data)"
    by (simp add: split_ws_stories demo_data_def mk_payload_node_def attr_number_def num_of_def)
  have "callback_size_nodes demo_cfg demo_data demo_scaling (Some ''Number of stories'') =
          Inr (demo_data\<lparr>data_nodes :=
                 map (\<lambda>n. dict_set n ''size''
                            (FloatV (rescaled demo_cfg 0 10 (the (attr_number n (last (split_ws ''Number of stories'')))))))
                     (data_nodes demo_data)\<rparr>)"
    by (rule mp [OF conjunct1 [OF callback_size_nodes_rescale
            [where per_col = "[(''stories'', ?b)]" and b = ?b]]])
       (intro conjI h1 h2 h3 h4 h5 h6 h7)
  also have "map (\<lambda>n. dict_set n ''size''
                            (FloatV (rescaled demo_cfg 0 10 (the (attr_number n (last (split_ws ''Number of stories'')))))))
                     (data_nodes demo_data)
        = [dict_set (mk_payload_node ''Life'' 5) ''size'' (FloatV 30),
               dict_set (mk_payload_node ''Writing'' 0) ''size'' (FloatV 10),
               dict_set (mk_payload_node ''Poetry'' 10) ''size'' (FloatV 50)]"
    by (simp add: split_ws_stories demo_data_def mk_payload_node_def attr_number_def num_of_def
        rescaled_def demo_cfg_def)
  finally show ?thesis
    using h1 h2 h3 h4 h5 h6 h7 by simp
qed


subsection \<open>C8: the two checks of \<open>parse_data\<close>\<close>

text \<open>
  C8: \<open>parse_data\<close> raises exactly when the edge table has no column \<open>from\<close> or no
  column \<open>to\<close>, or a node table is given that has no column \<open>id\<close>; on any other
  input it returns.
\<close>

lemma parse_data_returns:
  assumes "''from'' \<in> set (colnames edge_df)" and "''to'' \<in> set (colnames edge_df)"
    and "case node_df of None \<Rightarrow> True | Some n \<Rightarrow> ''id'' \<in> set (colnames n)"
  shows "\<exists>res. parse_data default_size env edge_df node_df = Inr res"
  using assms by (cases node_df) (simp_all add: parse_data_def Let_def)

theorem parse_data_raises_iff:
  "isl (parse_data default_size env edge_df node_df) \<longleftrightarrow>
     (''from'' \<notin> set (colnames edge_df) \<or> ''to'' \<notin> set (colnames edge_df)
      \<or> (\<exists>n. node_df = Some n \<and> ''id'' \<notin> set (colnames n)))"
  by (cases node_df) (auto simp: parse_data_def Let_def)

theorem parse_data_raises_iff_witness:
  "isl (parse_data 7 demo_env no_to_edge_df None)
   \<and> ''to'' \<notin> set (colnames no_to_edge_df)
   \<and> \<not> isl (parse_data 7 demo_env int_edge_df (Some int_node_df))
   \<and> ''from'' \<in> set (colnames int_edge_df) \<and> ''to'' \<in> set (colnames int_edge_df)
   \<and> ''id'' \<in> set (colnames int_node_df)"
proof -
  have a: "''to'' \<notin> set (colnames no_to_edge_df)"
    by (simp add: colnames_def no_to_edge_df_def)
  have b: "''from'' \<in> set (colnames int_edge_df)" "''to'' \<in> set (colnames int_edge_df)"
    "''id'' \<in> set (colnames int_node_df)"
    by (simp_all add: colnames_def int_edge_df_def int_node_df_def)
  from parse_data_raises_iff [of 7 demo_env no_to_edge_df None]
    parse_data_raises_iff [of 7 demo_env int_edge_df "Some int_node_df"] a b
  show ?thesis by simp
qed


subsection \<open>C10: the frames of the caller after \<open>parse_data\<close>\<close>

lemma map_of_coerce:
  "map_of (map (\<lambda>(c, v). if c \<in> S then (c, f v) else (c, v)) r) k
     = (if k \<in> S then map_option f (map_of r k) else map_of r k)"
  by (induction r) auto

lemma astype_str_column:
  "map (\<lambda>r. map_of r c) (records (astype_str env cols df))
     = (if c \<in> set cols then map (\<lambda>r. map_option (\<lambda>v. StrV (py_str env v)) (map_of r c)) (records df)
        else map (\<lambda>r. map_of r c) (records df))"
  by (simp add: astype_str_def map_of_coerce comp_def)

lemma astype_str_colnames: "colnames (astype_str env cols df) = colnames df"
  by (auto simp: astype_str_def colnames_def split: prod.splits)

text \<open>
  C10: \<open>parse_data\<close> changes the frames it is given: after a call that returns, the
  columns \<open>from\<close> and \<open>to\<close> of the caller's edge frame, and the column \<open>id\<close> of the
  caller's node frame when there is one, hold the strings of their former values;
  every other column, and the names of the columns, are as before.
\<close>

theorem parse_data_coerces_in_place:
  assumes "parse_data default_size env edge_df node_df = Inr res"
  shows "colnames (edge_df_after res) = colnames edge_df
       \<and> map (\<lambda>r. map_of r c) (records (edge_df_after res))
           = (if c \<in> {''from'', ''to''}
              then map (\<lambda>r. map_option (\<lambda>v. StrV (py_str env v)) (map_of r c)) (records edge_df)
              else map (\<lambda>r. map_of r c) (records edge_df))
       \<and> rel_option
           (\<lambda>n n'. colnames n' = colnames n
              \<and> map (\<lambda>r. map_of r c) (records n')
                  = (if c = ''id''
                     then map (\<lambda>r. map_option (\<lambda>v. StrV (py_str env v)) (map_of r c)) (records n)
                     else map (\<lambda>r. map_of r c) (records n)))
           node_df (node_df_after res)"
proof -
  from assms have e: "edge_df_after res = astype_str env [''from'', ''to''] edge_df"
    and n: "node_df_after res = map_option (astype_str env [''id'']) node_df"
    by (auto simp: parse_data_def Let_def split: if_splits)
  show ?thesis
    unfolding e n
    by (cases node_df) (simp_all add: astype_str_column astype_str_colnames)
qed

theorem parse_data_coerces_in_place_witness:
  "(\<exists>res. parse_data 7 demo_env int_edge_df (Some int_node_df) = Inr res
      \<and> map (\<lambda>r. map_of r ''from'') (records (edge_df_after res)) = [Some (StrV ''1'')]
      \<and> map (\<lambda>r. map_of r ''weight'') (records (edge_df_after res)) = [Some (IntV 3)])
   \<and> map (\<lambda>r. map_of r ''from'') (records int_edge_df) = [Some (IntV 1)]"
proof -
  have "\<exists>res. parse_data 7 demo_env int_edge_df (Some int_node_df) = Inr res"
    by (rule parse_data_returns) (simp_all add: colnames_def int_edge_df_def int_node_df_def)
  then obtain res where res: "parse_data 7 demo_env int_edge_df (Some int_node_df) = Inr res"
    by blast
  have one: "py_str demo_env (IntV 1) = ''1''"
    by code_simp
  have old_from: "map (\<lambda>r. map_of r ''from'') (records int_edge_df) = [Some (IntV 1)]"
    and old_weight: "map (\<lambda>r. map_of r ''weight'') (records int_edge_df) = [Some (IntV 3)]"
    by (simp_all add: int_edge_df_def)
  have "map (\<lambda>r. map_of r ''from'') (records (edge_df_after res))
          = (if ''from'' \<in> {''from'', ''to''}
             then map (\<lambda>r. map_option (\<lambda>v. StrV (py_str demo_env v)) (map_of r ''from'')) (records int_edge_df)
             else map (\<lambda>r. map_of r ''from'') (records int_edge_df))"
    by (rule conjunct1 [OF conjunct2 [OF parse_data_coerces_in_place [OF res]]])
  then have f: "map (\<lambda>r. map_of r ''from'') (records (edge_df_after res)) = [Some (StrV ''1'')]"
    by (simp add: int_edge_df_def one)
  have "map (\<lambda>r. map_of r ''weight'') (records (edge_df_after res))
          = (if ''weight'' \<in> {''from'', ''to''}
             then map (\<lambda>r. map_option (\<lambda>v. StrV (py_str demo_env v)) (map_of r ''weight'')) (records int_edge_df)
             else map (\<lambda>r. map_of r ''weight'') (records int_edge_df))"
    by (rule conjunct1 [OF conjunct2 [OF parse_data_coerces_in_place [OF res]]])
  then have w: "map (\<lambda>r. map_of r ''weight'') (records (edge_df_after res)) = [Some (IntV 3)]"
    by (simp add: old_weight)
  have "\<exists>res. parse_data 7 demo_env int_edge_df (Some int_node_df) = Inr res
      \<and> map (\<lambda>r. map_of r ''from'') (records (edge_df_after res)) = [Some (StrV ''1'')]
      \<and> map (\<lambda>r. map_of r ''weight'') (records (edge_df_after res)) = [Some (IntV 3)]"
    by (rule exI [of _ res]) (rule conjI [OF res conjI [OF f w]])
  then show ?thesis
    by (rule conjI [OF _ old_from])
qed


end
